theory Spec2Isabelle
  imports Main
begin

section \<open>The Go runtime delegate of the functions deployer\<close>

text \<open>
  An embedding of \<^verbatim>\<open>src/deploy/functions/runtimes/golang/index.ts\<close>.
  Every call that leaves the module (file system, child processes, the network, the
  discovery helpers, the parser of \<^verbatim>\<open>go.mod\<close>) is answered by a \<open>world\<close>: a record
  that gives, for each such call, the value it resolves to or the error it rejects with.
  A run of an \<^verbatim>\<open>async\<close> function is the list of external calls it made, in order, up
  to the moment its promise settles, together with the way it settles (\<open>Inl\<close> a
  rejection, \<open>Inr\<close> the value).
\<close>

subsection \<open>Values\<close>

datatype err =
    FirebaseError string "err list"  \<comment> \<open>message and \<^verbatim>\<open>children\<close>\<close>
  | Error string                     \<comment> \<open>a plain \<^verbatim>\<open>Error\<close>, also what the platform rejects with\<close>
  | TypeError string                 \<comment> \<open>property access on \<^verbatim>\<open>undefined\<close> or \<^verbatim>\<open>null\<close>\<close>

fun message :: "err \<Rightarrow> string" where
  "message (FirebaseError m cs) = m"
| "message (Error m) = m"
| "message (TypeError m) = m"

text \<open>\<^verbatim>\<open>path.join\<close> is kept symbolic: a path is the list of segments that were joined.\<close>

datatype path = path_join "string list"

text \<open>
  An object used as a dictionary of strings. A key that reads as \<^verbatim>\<open>undefined\<close> is
  \<open>None\<close>; assigning \<^verbatim>\<open>undefined\<close> to a key of the child's environment leaves the
  variable unset in the child, so it is \<open>None\<close> as well.
\<close>

type_synonym env = "string \<rightharpoonup> string"

text \<open>
  What ends up as a delegate's \<^verbatim>\<open>runtime\<close>: a string, or, when it was read from
  \<^verbatim>\<open>VERSION_TO_RUNTIME\<close> under a name that the table does not declare but every object
  inherits, the member of \<^verbatim>\<open>Object.prototype\<close> of that name.
\<close>

datatype runtime_value =
    Runtime string
  | Inherited string

record gomodule =
  module :: string
  version :: "string option"

record delegate =
  projectId :: string
  sourceDir :: string
  runtime :: runtime_value
  delegate_module :: gomodule

record backend =
  environmentVariables :: env
  otherFields :: string  \<comment> \<open>the rest of the discovered specification, opaque here\<close>

record sync_result =
  status :: "int option"     \<comment> \<open>\<^verbatim>\<open>null\<close> when the command did not exit by itself\<close>
  stdout :: "string option"
  stderr :: "string option"

datatype child_fate =
    ExitsBeforeGrace         \<comment> \<open>\<^verbatim>\<open>exit\<close> is emitted before the ten seconds are over\<close>
  | AliveAtGrace             \<comment> \<open>still running when the timer fires\<close>
  | EmitsError err           \<comment> \<open>\<^verbatim>\<open>error\<close> is emitted first\<close>

datatype effect =
    ReadFile path
  | LogDebug string
  | Mkdir path
  | SpawnSync string "string list" string
  | WriteFile path string
  | Spawn string "string list" env string
  | Fetch string
  | SetTimeout nat
  | Kill string
  | DetectFromYaml string string runtime_value
  | GetPort
  | DetectFromPort nat string runtime_value

record world =
  readFile :: "path \<Rightarrow> err + string"
  parseModule :: "string \<Rightarrow> err + gomodule"
  mkdir :: "path \<Rightarrow> err + unit"
  spawn_sync :: "string \<Rightarrow> string list \<Rightarrow> string \<Rightarrow> sync_result"
  writeFile :: "path \<Rightarrow> string \<Rightarrow> err + unit"
  process_env :: env
  fetch :: "string \<Rightarrow> err + unit"
  child :: child_fate
  detectFromYaml :: "string \<Rightarrow> string \<Rightarrow> runtime_value \<Rightarrow> err + backend option"
  getPort :: "nat \<Rightarrow> err + nat"  \<comment> \<open>the answer to the n-th call\<close>
  detectFromPort :: "nat \<Rightarrow> string \<Rightarrow> runtime_value \<Rightarrow> err + backend option"

record options =
  functions_source :: string           \<comment> \<open>\<^verbatim>\<open>config.get("functions.source")\<close>\<close>
  functions_runtime :: "string option" \<comment> \<open>\<^verbatim>\<open>config.get("functions.runtime")\<close>\<close>
  config_path :: "string \<Rightarrow> string"
  project :: string                    \<comment> \<open>what \<^verbatim>\<open>getProjectId(options)\<close> returns\<close>

subsection \<open>Promises with a trace of external calls\<close>

type_synonym 'a io = "effect list \<times> (err + 'a)"

definition ret :: "'a \<Rightarrow> 'a io" where
  "ret v = ([], Inr v)"

definition throw :: "err \<Rightarrow> 'a io" where
  "throw e = ([], Inl e)"

definition perform :: "effect \<Rightarrow> err + 'a \<Rightarrow> 'a io" where
  "perform ef r = ([ef], r)"

definition await :: "'a io \<Rightarrow> ('a \<Rightarrow> 'b io) \<Rightarrow> 'b io" where
  "await m f =
     (case m of
        (t, Inl e) \<Rightarrow> (t, Inl e)
      | (t, Inr v) \<Rightarrow> (case f v of (t', r) \<Rightarrow> (t @ t', r)))"

text \<open>
  \<^verbatim>\<open>try { m } finally { c }\<close>: the cleanup runs however \<open>m\<close> settled; when the cleanup
  itself throws, its error is the one that leaves the block.
\<close>

definition try_finally :: "'a io \<Rightarrow> unit io \<Rightarrow> 'a io" where
  "try_finally m c =
     (case m of (t, r) \<Rightarrow>
        (case c of
           (t', Inl e) \<Rightarrow> (t @ t', Inl e)
         | (t', Inr u) \<Rightarrow> (t @ t', r)))"

subsection \<open>Strings\<close>

text \<open>A value is falsy when it is \<^verbatim>\<open>undefined\<close> or the empty string.\<close>

fun falsy :: "string option \<Rightarrow> bool" where
  "falsy None = True"
| "falsy (Some s) = (s = [])"

text \<open>A string is truthy unless it is empty; a member of \<^verbatim>\<open>Object.prototype\<close> is truthy.\<close>

fun falsy_value :: "runtime_value option \<Rightarrow> bool" where
  "falsy_value None = True"
| "falsy_value (Some (Runtime s)) = (s = [])"
| "falsy_value (Some (Inherited k)) = False"

fun join :: "string \<Rightarrow> string list \<Rightarrow> string" where
  "join sep [] = []"
| "join sep [x] = x"
| "join sep (x # y # ys) = x @ sep @ join sep (y # ys)"

fun starts_with :: "string \<Rightarrow> string \<Rightarrow> bool" where
  "starts_with [] ys = True"
| "starts_with (x # xs) [] = False"
| "starts_with (x # xs) (y # ys) = (x = y \<and> starts_with xs ys)"

text \<open>\<open>contains_str p s\<close>: the regular expression that is the literal \<open>p\<close> matches in \<open>s\<close>.\<close>

fun contains_str :: "string \<Rightarrow> string \<Rightarrow> bool" where
  "contains_str p [] = starts_with p []"
| "contains_str p (y # ys) = (starts_with p (y # ys) \<or> contains_str p ys)"

text \<open>\<^verbatim>\<open>Number.prototype.toString\<close> on a port number: its decimal digits.\<close>

fun toString :: "nat \<Rightarrow> string" where
  "toString n =
     (if n < 10 then [''0123456789'' ! n]
      else toString (n div 10) @ [''0123456789'' ! (n mod 10)])"

declare toString.simps [simp del]

subsection \<open>Constants\<close>

definition VERSION_TO_RUNTIME :: "(string \<times> string) list" where
  "VERSION_TO_RUNTIME = [(''1.13'', ''go113'')]"

text \<open>
  \<^verbatim>\<open>VERSION_TO_RUNTIME\<close> is a plain object literal, so a property read
  \<^verbatim>\<open>VERSION_TO_RUNTIME[key]\<close> answers the keys it declares and, for any other key, goes
  on to \<^verbatim>\<open>Object.prototype\<close>, whose members are these (eleven functions, and
  \<^verbatim>\<open>__proto__\<close>, which reads as the prototype object). \<^verbatim>\<open>Object.keys\<close> lists the
  declared keys only.
\<close>

definition OBJECT_PROTOTYPE :: "string list" where
  "OBJECT_PROTOTYPE =
     [''constructor'', ''__defineGetter__'', ''__defineSetter__'', ''hasOwnProperty'',
      ''__lookupGetter__'', ''__lookupSetter__'', ''isPrototypeOf'', ''propertyIsEnumerable'',
      ''toString'', ''valueOf'', ''__proto__'', ''toLocaleString'']"

definition get_property :: "(string \<times> string) list \<Rightarrow> string \<Rightarrow> runtime_value option" where
  "get_property obj key =
     (case map_of obj key of
        Some v \<Rightarrow> Some (Runtime v)
      | None \<Rightarrow> if key \<in> set OBJECT_PROTOTYPE then Some (Inherited key) else None)"

definition FUNCTIONS_SDK :: string where
  "FUNCTIONS_SDK = ''github.com/inlined/go-functions''"

definition FUNCTIONS_CODEGEN :: string where
  "FUNCTIONS_CODEGEN = FUNCTIONS_SDK @ ''/support/codegen''"

subsection \<open>tryCreateDelegate\<close>

definition getProjectId :: "options \<Rightarrow> string" where
  "getProjectId opts = project opts"

definition unsupported_version_message :: "string \<Rightarrow> string" where
  "unsupported_version_message v =
     ''go.mod specifies Golang version '' @ v @
     '' which is unsupported by Google Cloud Functions. Valid values are '' @
     join '', '' (map fst VERSION_TO_RUNTIME)"

text \<open>
  The calls that prepare a run (\<^verbatim>\<open>options.config.get\<close>, \<^verbatim>\<open>options.config.path\<close>,
  \<^verbatim>\<open>getProjectId\<close>) are taken to return; \<open>options\<close> holds what they return. The
  configured runtime and the module's version are strings or \<^verbatim>\<open>undefined\<close>, and the
  tests \<^verbatim>\<open>!runtime\<close> and \<^verbatim>\<open>!module.version\<close> are \<open>falsy\<close>. The lookup
  \<^verbatim>\<open>VERSION_TO_RUNTIME[module.version]\<close> is \<open>get_property\<close>: it also answers the
  names of the members that the table inherits, and what it answers becomes the
  delegate's runtime.

  The \<^verbatim>\<open>try\<close> block holds the read of \<^verbatim>\<open>go.mod\<close> and its parse; the \<^verbatim>\<open>catch\<close>
  logs and returns \<^verbatim>\<open>undefined\<close> (\<open>None\<close>) for an error of either.
\<close>

definition tryCreateDelegate :: "world \<Rightarrow> options \<Rightarrow> delegate option io" where
  "tryCreateDelegate w opts =
     (let sourceDirName = functions_source opts;
          srcDir = config_path opts sourceDirName;
          goModPath = path_join [srcDir, ''go.mod''];
          pid = getProjectId opts
      in case await (perform (ReadFile goModPath) (readFile w goModPath))
                    (\<lambda>modBuffer. ([], parseModule w modBuffer)) of
           (t, Inl e) \<Rightarrow>
             (t @ [LogDebug ''Customer code is not Golang code (or they aren't using modules)''],
              Inr None)
         | (t, Inr m) \<Rightarrow>
             await (t, Inr ()) (\<lambda>_.
               if falsy (functions_runtime opts) then
                 if falsy (version m) then
                   throw (FirebaseError ''Could not detect Golang version from go.mod'' [])
                 else if falsy_value (get_property VERSION_TO_RUNTIME (the (version m))) then
                   throw (FirebaseError (unsupported_version_message (the (version m))) [])
                 else
                   ret (Some \<lparr>projectId = pid, sourceDir = srcDir,
                              runtime = the (get_property VERSION_TO_RUNTIME (the (version m))),
                              delegate_module = m\<rparr>)
               else
                 ret (Some \<lparr>projectId = pid, sourceDir = srcDir,
                            runtime = Runtime (the (functions_runtime opts)),
                            delegate_module = m\<rparr>)))"

subsection \<open>Delegate.build\<close>

definition build :: "world \<Rightarrow> delegate \<Rightarrow> unit io" where
  "build w d =
     (let autogen = path_join [sourceDir d, ''autogen''];
          args = [''run'', FUNCTIONS_CODEGEN, module (delegate_module d)];
          getDeps = spawn_sync w ''go'' args (sourceDir d);
          target = path_join [sourceDir d, ''autogen'', ''main.go'']
      in await
           (case perform (Mkdir autogen) (mkdir w autogen) of
              (t, Inl e) \<Rightarrow>
                if \<not> contains_str ''EEXIST'' (message e)
                then (t, Inl (FirebaseError ''Failed to create codegen directory'' [e]))
                else (t, Inr ())
            | (t, Inr u) \<Rightarrow> (t, Inr ()))
           (\<lambda>_. await (perform (SpawnSync ''go'' args (sourceDir d)) (Inr getDeps))
             (\<lambda>_. if status getDeps \<noteq> Some 0 then
                     (case stderr getDeps of
                        None \<Rightarrow> throw (TypeError ''Cannot read properties of null'')
                      | Some s \<Rightarrow> throw (FirebaseError ''Failed to run codegen'' [Error s]))
                   else
                     (case stdout getDeps of
                        None \<Rightarrow> throw (TypeError ''The data argument must not be null'')
                      | Some out \<Rightarrow> perform (WriteFile target out) (writeFile w target out)))))"

subsection \<open>Delegate.serve and the stop handle it returns\<close>

text \<open>
  The object literal given as \<^verbatim>\<open>env\<close>, its entries applied in the order written.
  The listener that logs what the child writes to its standard output runs whenever the
  child writes; it is no part of a trace.
\<close>

definition serve_env :: "env \<Rightarrow> env \<Rightarrow> nat \<Rightarrow> nat \<Rightarrow> env" where
  "serve_env envs penv port adminPort =
     (envs ++ penv)
       (''GOPATH'' := penv ''GOPATH'',
        ''PORT'' \<mapsto> toString port,
        ''ADMIN_PORT'' \<mapsto> toString adminPort,
        ''PATH'' := penv ''PATH'')"

definition quit_url :: "nat \<Rightarrow> string" where
  "quit_url adminPort = ''http://localhost:'' @ toString adminPort @ ''/quitquitquit''"

text \<open>
  The closure returned by \<^verbatim>\<open>serve\<close>. The promise \<^verbatim>\<open>p\<close> settles with the first of
  the child's \<^verbatim>\<open>exit\<close> and \<^verbatim>\<open>error\<close> events. The timer callback finds
  \<^verbatim>\<open>childProcess.killed\<close> false, since nothing else sends the child a signal, and
  sends \<^verbatim>\<open>SIGKILL\<close>; the trace shows it when the child is still running by then.
\<close>

definition stop_handle :: "world \<Rightarrow> nat \<Rightarrow> unit io" where
  "stop_handle w adminPort =
     await (perform (Fetch (quit_url adminPort)) (fetch w (quit_url adminPort)))
       (\<lambda>_. await (perform (SetTimeout 10000) (Inr ()))
         (\<lambda>_. case child w of
                 ExitsBeforeGrace \<Rightarrow> ret ()
               | AliveAtGrace \<Rightarrow> perform (Kill ''SIGKILL'') (Inr ())
               | EmitsError e \<Rightarrow> throw e))"

definition serve :: "world \<Rightarrow> delegate \<Rightarrow> nat \<Rightarrow> nat \<Rightarrow> env \<Rightarrow> unit io io" where
  "serve w d port adminPort envs =
     perform
       (Spawn ''go'' [''run'', ''./autogen'']
          (serve_env envs (process_env w) port adminPort) (sourceDir d))
       (Inr (stop_handle w adminPort))"

subsection \<open>Delegate.discoverSpec\<close>

definition discoverSpec :: "world \<Rightarrow> delegate \<Rightarrow> env \<Rightarrow> env \<Rightarrow> backend io" where
  "discoverSpec w d configValues envs =
     await (perform (DetectFromYaml (sourceDir d) (projectId d) (runtime d))
              (detectFromYaml w (sourceDir d) (projectId d) (runtime d)))
       (\<lambda>discovered0.
          await
            (case discovered0 of
               Some b \<Rightarrow> ret (Some b)
             | None \<Rightarrow>
                 await (perform GetPort (getPort w 0)) (\<lambda>port.
                 await (perform GetPort (getPort w 1)) (\<lambda>adminPort.
                 await (serve w d port adminPort envs) (\<lambda>kill.
                   try_finally
                     (perform (DetectFromPort 8081 (projectId d) (runtime d))
                        (detectFromPort w 8081 (projectId d) (runtime d)))
                     kill))))
            (\<lambda>discovered.
               case discovered of
                 None \<Rightarrow> throw (TypeError ''Cannot set properties of undefined'')
               | Some b \<Rightarrow> ret (b\<lparr>environmentVariables := envs\<rparr>)))"

subsection \<open>Observations on a trace\<close>

fun spawn_count :: "effect list \<Rightarrow> nat" where
  "spawn_count [] = 0"
| "spawn_count (Spawn c a e cwd # es) = Suc (spawn_count es)"
| "spawn_count (ef # es) = spawn_count es"

fun port_allocations :: "effect list \<Rightarrow> nat" where
  "port_allocations [] = 0"
| "port_allocations (GetPort # es) = Suc (port_allocations es)"
| "port_allocations (ef # es) = port_allocations es"

fun probe_ports :: "effect list \<Rightarrow> nat list" where
  "probe_ports [] = []"
| "probe_ports (DetectFromPort p pid rt # es) = p # probe_ports es"
| "probe_ports (ef # es) = probe_ports es"

fun spawn_envs :: "effect list \<Rightarrow> env list" where
  "spawn_envs [] = []"
| "spawn_envs (Spawn c a e cwd # es) = e # spawn_envs es"
| "spawn_envs (ef # es) = spawn_envs es"

subsection \<open>Concrete inputs\<close>

text \<open>
  A project whose \<^verbatim>\<open>go.mod\<close> parses, with no declarative specification file, whose
  server answers the probe and exits when asked to. The inputs below vary it.
\<close>

definition example_module :: gomodule where
  "example_module = \<lparr>module = ''example.com/fn'', version = Some ''1.13''\<rparr>"

definition example_backend :: backend where
  "example_backend =
     \<lparr>environmentVariables = [''FROM_CHILD'' \<mapsto> ''x''], otherFields = ''endpoints''\<rparr>"

definition example_world :: world where
  "example_world =
     \<lparr>readFile = (\<lambda>p. Inr ''module example.com/fn''),
      parseModule = (\<lambda>s. Inr example_module),
      mkdir = (\<lambda>p. Inr ()),
      spawn_sync = (\<lambda>c a cwd. \<lparr>status = Some 0, stdout = Some ''package main'', stderr = Some ''''\<rparr>),
      writeFile = (\<lambda>p s. Inr ()),
      process_env = [''PATH'' \<mapsto> ''/usr/bin'', ''FOO'' \<mapsto> ''inherited''],
      fetch = (\<lambda>u. Inr ()),
      child = ExitsBeforeGrace,
      detectFromYaml = (\<lambda>dir pid rt. Inr None),
      getPort = (\<lambda>n. Inr (5000 + n)),
      detectFromPort = (\<lambda>p pid rt. Inr (Some example_backend))\<rparr>"

definition example_options :: options where
  "example_options =
     \<lparr>functions_source = ''functions'', functions_runtime = None,
      config_path = (\<lambda>s. ''/home/user/project/'' @ s), project = ''demo-project''\<rparr>"

definition example_delegate :: delegate where
  "example_delegate =
     \<lparr>projectId = ''demo-project'', sourceDir = ''/home/user/project/functions'',
      runtime = Runtime ''go113'', delegate_module = example_module\<rparr>"

definition refused_world :: world where
  "refused_world =
     example_world\<lparr>fetch := (\<lambda>u. Inl (Error ''connect ECONNREFUSED 127.0.0.1:5001'')),
                   child := AliveAtGrace\<rparr>"

definition probe_fails_world :: world where
  "probe_fails_world =
     example_world\<lparr>detectFromPort :=
       (\<lambda>p pid rt. Inl (Error ''connect ECONNREFUSED 127.0.0.1:8081''))\<rparr>"

definition child_error_world :: world where
  "child_error_world = probe_fails_world\<lparr>child := EmitsError (Error ''child process error'')\<rparr>"

definition static_world :: world where
  "static_world = example_world\<lparr>detectFromYaml := (\<lambda>dir pid rt. Inr (Some example_backend))\<rparr>"

definition unsupported_module :: gomodule where
  "unsupported_module = \<lparr>module = ''example.com/fn'', version = Some ''9.99''\<rparr>"

definition unsupported_world :: world where
  "unsupported_world = example_world\<lparr>parseModule := (\<lambda>s. Inr unsupported_module)\<rparr>"



definition override_options :: options where
  "override_options = example_options\<lparr>functions_runtime := Some ''go113''\<rparr>"

definition absent_world :: world where
  "absent_world =
     example_world\<lparr>readFile := (\<lambda>p. Inl (Error ''ENOENT: no such file or directory''))\<rparr>"

definition unparsable_world :: world where
  "unparsable_world =
     example_world\<lparr>readFile := (\<lambda>p. Inr ''not a module file''),
                   parseModule := (\<lambda>s. Inl (Error ''Module has no name''))\<rparr>"

definition codegen_fails_world :: world where
  "codegen_fails_world =
     example_world\<lparr>spawn_sync :=
       (\<lambda>c a cwd. \<lparr>status = Some 1, stdout = Some [], stderr = Some ''module not found''\<rparr>)\<rparr>"

section \<open>Properties\<close>

subsection \<open>What each function computes\<close>

lemma starts_with_append: "starts_with p (p @ s)"
  by (induction p) simp_all

lemma contains_str_starts: "starts_with p s \<Longrightarrow> contains_str p s"
  by (cases s) simp_all

lemma contains_str_middle: "contains_str p (a @ p @ s)"
  by (induction a) (simp_all add: contains_str_starts starts_with_append)

lemma tryCreateDelegate_parsed:
  assumes "readFile w (path_join [config_path opts (functions_source opts), ''go.mod'']) = Inr buf"
    and "parseModule w buf = Inr m"
  shows "tryCreateDelegate w opts =
     ([ReadFile (path_join [config_path opts (functions_source opts), ''go.mod''])],
      if falsy (functions_runtime opts) then
        if falsy (version m) then
          Inl (FirebaseError ''Could not detect Golang version from go.mod'' [])
        else if falsy_value (get_property VERSION_TO_RUNTIME (the (version m))) then
          Inl (FirebaseError (unsupported_version_message (the (version m))) [])
        else Inr (Some \<lparr>projectId = project opts,
                         sourceDir = config_path opts (functions_source opts),
                         runtime = the (get_property VERSION_TO_RUNTIME (the (version m))),
                         delegate_module = m\<rparr>)
      else Inr (Some \<lparr>projectId = project opts,
                       sourceDir = config_path opts (functions_source opts),
                       runtime = Runtime (the (functions_runtime opts)),
                       delegate_module = m\<rparr>))"
  using assms
  by (simp add: tryCreateDelegate_def Let_def await_def perform_def throw_def ret_def getProjectId_def)

lemma tryCreateDelegate_not_parsed:
  assumes "readFile w (path_join [config_path opts (functions_source opts), ''go.mod'']) = Inl e
     \<or> (readFile w (path_join [config_path opts (functions_source opts), ''go.mod'']) = Inr buf
        \<and> parseModule w buf = Inl e)"
  shows "tryCreateDelegate w opts =
     ([ReadFile (path_join [config_path opts (functions_source opts), ''go.mod'']),
       LogDebug ''Customer code is not Golang code (or they aren't using modules)''],
      Inr None)"
  using assms
  by (auto simp add: tryCreateDelegate_def Let_def await_def perform_def)


lemma stop_handle_refused:
  "fetch w (quit_url adminPort) = Inl e \<Longrightarrow>
   stop_handle w adminPort = ([Fetch (quit_url adminPort)], Inl e)"
  by (simp add: stop_handle_def await_def perform_def)

lemma stop_handle_sent:
  "fetch w (quit_url adminPort) = Inr u \<Longrightarrow>
   stop_handle w adminPort =
     (case child w of
        ExitsBeforeGrace \<Rightarrow> ([Fetch (quit_url adminPort), SetTimeout 10000], Inr ())
      | AliveAtGrace \<Rightarrow>
          ([Fetch (quit_url adminPort), SetTimeout 10000, Kill ''SIGKILL''], Inr ())
      | EmitsError e \<Rightarrow> ([Fetch (quit_url adminPort), SetTimeout 10000], Inl e))"
  by (simp add: stop_handle_def await_def perform_def ret_def throw_def
      split: child_fate.splits)

lemma stop_handle_trace:
  "fst (stop_handle w adminPort) =
     Fetch (quit_url adminPort) #
     (case fetch w (quit_url adminPort) of
        Inl e \<Rightarrow> []
      | Inr u \<Rightarrow>
          SetTimeout 10000 # (case child w of AliveAtGrace \<Rightarrow> [Kill ''SIGKILL''] | _ \<Rightarrow> []))"
  by (simp add: stop_handle_def await_def perform_def ret_def throw_def
      split: child_fate.splits sum.splits)

lemma discoverSpec_static:
  assumes "detectFromYaml w (sourceDir d) (projectId d) (runtime d) = Inr (Some b)"
  shows "discoverSpec w d configValues envs =
     ([DetectFromYaml (sourceDir d) (projectId d) (runtime d)],
      Inr (b\<lparr>environmentVariables := envs\<rparr>))"
  using assms by (simp add: discoverSpec_def await_def perform_def ret_def)

lemma discoverSpec_dynamic:
  assumes "detectFromYaml w (sourceDir d) (projectId d) (runtime d) = Inr None"
    and "getPort w 0 = Inr port"
    and "getPort w 1 = Inr adminPort"
  shows "discoverSpec w d configValues envs =
     ([DetectFromYaml (sourceDir d) (projectId d) (runtime d), GetPort, GetPort,
       Spawn ''go'' [''run'', ''./autogen'']
         (serve_env envs (process_env w) port adminPort) (sourceDir d),
       DetectFromPort 8081 (projectId d) (runtime d)] @ fst (stop_handle w adminPort),
      case snd (stop_handle w adminPort) of
        Inl e \<Rightarrow> Inl e
      | Inr u \<Rightarrow>
          (case detectFromPort w 8081 (projectId d) (runtime d) of
             Inl e \<Rightarrow> Inl e
           | Inr None \<Rightarrow> Inl (TypeError ''Cannot set properties of undefined'')
           | Inr (Some b) \<Rightarrow> Inr (b\<lparr>environmentVariables := envs\<rparr>)))"
  using assms
  by (cases "stop_handle w adminPort")
     (simp add: discoverSpec_def await_def perform_def ret_def throw_def serve_def
        try_finally_def split: sum.splits option.splits)

lemma discoverSpec_env:
  "snd (discoverSpec w d configValues envs) = Inr b \<Longrightarrow> environmentVariables b = envs"
  by (auto simp add: discoverSpec_def await_def perform_def ret_def throw_def serve_def
        try_finally_def split: sum.splits option.splits prod.splits)

lemma build_codegen:
  assumes "mkdir w (path_join [sourceDir d, ''autogen'']) = Inr ()
     \<or> (\<exists>e. mkdir w (path_join [sourceDir d, ''autogen'']) = Inl e
          \<and> contains_str ''EEXIST'' (message e))"
  shows "build w d =
    (let args = [''run'', FUNCTIONS_CODEGEN, module (delegate_module d)];
         getDeps = spawn_sync w ''go'' args (sourceDir d);
         target = path_join [sourceDir d, ''autogen'', ''main.go''];
         pre = [Mkdir (path_join [sourceDir d, ''autogen'']), SpawnSync ''go'' args (sourceDir d)]
     in if status getDeps \<noteq> Some 0 then
          (case stderr getDeps of
             None \<Rightarrow> (pre, Inl (TypeError ''Cannot read properties of null''))
           | Some s \<Rightarrow> (pre, Inl (FirebaseError ''Failed to run codegen'' [Error s])))
        else
          (case stdout getDeps of
             None \<Rightarrow> (pre, Inl (TypeError ''The data argument must not be null''))
           | Some out \<Rightarrow> (pre @ [WriteFile target out], writeFile w target out)))"
  using assms
  by (auto simp add: build_def Let_def await_def perform_def throw_def split: option.splits)

lemma probe_ports_stop_handle: "probe_ports (fst (stop_handle w adminPort)) = []"
  by (simp add: stop_handle_trace split: sum.splits child_fate.splits)

lemma spawn_envs_stop_handle: "spawn_envs (fst (stop_handle w adminPort)) = []"
  by (simp add: stop_handle_trace split: sum.splits child_fate.splits)

lemma probe_ports_append: "probe_ports (xs @ ys) = probe_ports xs @ probe_ports ys"
  by (induction xs rule: probe_ports.induct) simp_all

lemma spawn_envs_append: "spawn_envs (xs @ ys) = spawn_envs xs @ spawn_envs ys"
  by (induction xs rule: spawn_envs.induct) simp_all

subsection \<open>The stop handle when the admin endpoint refuses the connection\<close>

text \<open>
  C1. The claim: when the request to the admin endpoint fails, the stop handle still
  resolves and the child is terminated. The code awaits the request with no handler
  around it, so at a refused connection the handle rejects with the request's error
  before the timer is armed: the trace holds the request only, no \<^verbatim>\<open>setTimeout\<close>
  and no \<^verbatim>\<open>SIGKILL\<close>, although the child is still running.
\<close>

theorem stop_handle_quit_refused:
  "stop_handle refused_world 5001 =
     ([Fetch ''http://localhost:5001/quitquitquit''],
      Inl (Error ''connect ECONNREFUSED 127.0.0.1:5001''))"
  by (simp add: stop_handle_refused refused_world_def example_world_def quit_url_def
      toString.simps)

subsection \<open>The environment of the launched server\<close>

text \<open>
  C2, as stated, fails: a variable that the user supplies and the process environment
  also has reaches the child with the inherited value, since \<^verbatim>\<open>...process.env\<close> is
  spread after \<^verbatim>\<open>...envs\<close>.
\<close>

theorem serve_env_inherited_wins:
  "map (\<lambda>e. e ''FOO'')
     (spawn_envs (fst (serve example_world example_delegate 5000 5001 [''FOO'' \<mapsto> ''user'']))) =
   [Some ''inherited'']"
  by (simp add: serve_def perform_def serve_env_def example_world_def map_add_def)

text \<open>
  C2, amended. \<^verbatim>\<open>serve\<close> spawns \<^verbatim>\<open>go run ./autogen\<close> once, in the source directory,
  with an environment layered in increasing precedence: the user-supplied \<open>envs\<close>, then
  the inherited process environment, then \<^verbatim>\<open>GOPATH\<close> and \<^verbatim>\<open>PATH\<close> as inherited and the
  injected \<^verbatim>\<open>PORT\<close> and \<^verbatim>\<open>ADMIN_PORT\<close>. An inherited variable overrides the user-supplied
  variable of the same name.
\<close>

theorem serve_env_layering:
  "fst (serve w d port adminPort envs) =
     [Spawn ''go'' [''run'', ''./autogen'']
        (serve_env envs (process_env w) port adminPort) (sourceDir d)]
   \<and> serve_env envs (process_env w) port adminPort k =
     (if k = ''PATH'' \<or> k = ''GOPATH'' then process_env w k
      else if k = ''ADMIN_PORT'' then Some (toString adminPort)
      else if k = ''PORT'' then Some (toString port)
      else (case process_env w k of Some v \<Rightarrow> Some v | None \<Rightarrow> envs k))"
  by (simp add: serve_def perform_def serve_env_def map_add_def)

subsection \<open>Cleanup around the probe\<close>

text \<open>
  C3, as stated, fails in its last part: when the probe throws and the stop handle then
  rejects, here because the child reports an error while it is being stopped, the
  \<^verbatim>\<open>finally\<close> block's error replaces the probe's, and \<^verbatim>\<open>discoverSpec\<close> rejects
  with the stop handle's error.
\<close>

theorem discoverSpec_masked_error:
  "detectFromPort child_error_world 8081 (projectId example_delegate) (runtime example_delegate) =
     Inl (Error ''connect ECONNREFUSED 127.0.0.1:8081'')
   \<and> snd (discoverSpec child_error_world example_delegate Map.empty Map.empty) =
     Inl (Error ''child process error'')
   \<and> snd (discoverSpec child_error_world example_delegate Map.empty Map.empty) \<noteq>
     Inl (Error ''connect ECONNREFUSED 127.0.0.1:8081'')"
proof -
  have w: "detectFromYaml child_error_world (sourceDir example_delegate)
             (projectId example_delegate) (runtime example_delegate) = Inr None"
      "getPort child_error_world 0 = Inr 5000" "getPort child_error_world 1 = Inr 5001"
      "fetch child_error_world (quit_url 5001) = Inr ()"
      "child child_error_world = EmitsError (Error ''child process error'')"
    by (simp_all add: child_error_world_def probe_fails_world_def example_world_def)
  show ?thesis
    using discoverSpec_dynamic [OF w(1-3), of Map.empty Map.empty] stop_handle_sent [OF w(4)] w(5)
    by (simp add: child_error_world_def probe_fails_world_def example_world_def)
qed

text \<open>
  C3, amended. In every execution of \<^verbatim>\<open>discoverSpec\<close> that takes the dynamic path and
  launches the server, the stop handle is invoked after the probe and awaited before
  \<^verbatim>\<open>discoverSpec\<close> settles, whatever the probe did (a specification, nothing, or an
  exception): the trace ends with the whole run of the stop handle. When the probe
  throws and the stop handle resolves, the probe's error is rethrown unchanged. When
  the child reports an error while it is being stopped, \<^verbatim>\<open>discoverSpec\<close> rejects with
  that error instead.
\<close>

theorem discoverSpec_cleanup:
  assumes "detectFromYaml w (sourceDir d) (projectId d) (runtime d) = Inr None"
    and "getPort w 0 = Inr port"
    and "getPort w 1 = Inr adminPort"
  shows "fst (discoverSpec w d configValues envs) =
       [DetectFromYaml (sourceDir d) (projectId d) (runtime d), GetPort, GetPort,
        Spawn ''go'' [''run'', ''./autogen'']
          (serve_env envs (process_env w) port adminPort) (sourceDir d),
        DetectFromPort 8081 (projectId d) (runtime d)] @ fst (stop_handle w adminPort)
     \<and> (\<forall>e. detectFromPort w 8081 (projectId d) (runtime d) = Inl e
            \<and> snd (stop_handle w adminPort) = Inr ()
          \<longrightarrow> snd (discoverSpec w d configValues envs) = Inl e)
     \<and> (\<forall>e. fetch w (quit_url adminPort) = Inr () \<and> child w = EmitsError e
          \<longrightarrow> snd (discoverSpec w d configValues envs) = Inl e)"
  using discoverSpec_dynamic [OF assms, of configValues envs]
  by (auto simp add: stop_handle_sent)

theorem discoverSpec_cleanup_witness:
  "detectFromYaml probe_fails_world (sourceDir example_delegate) (projectId example_delegate)
       (runtime example_delegate) = Inr None
   \<and> getPort probe_fails_world 0 = Inr 5000
   \<and> getPort probe_fails_world 1 = Inr 5001
   \<and> detectFromPort probe_fails_world 8081 (projectId example_delegate)
       (runtime example_delegate) = Inl (Error ''connect ECONNREFUSED 127.0.0.1:8081'')
   \<and> stop_handle probe_fails_world 5001 =
       ([Fetch ''http://localhost:5001/quitquitquit'', SetTimeout 10000], Inr ())
   \<and> snd (discoverSpec probe_fails_world example_delegate Map.empty Map.empty) =
       Inl (Error ''connect ECONNREFUSED 127.0.0.1:8081'')"
proof -
  have w: "detectFromYaml probe_fails_world (sourceDir example_delegate)
             (projectId example_delegate) (runtime example_delegate) = Inr None"
      "getPort probe_fails_world 0 = Inr 5000" "getPort probe_fails_world 1 = Inr 5001"
    by (simp_all add: probe_fails_world_def example_world_def)
  have p: "detectFromPort probe_fails_world 8081 (projectId example_delegate)
       (runtime example_delegate) = Inl (Error ''connect ECONNREFUSED 127.0.0.1:8081'')"
    by (simp add: probe_fails_world_def example_world_def)
  have f: "fetch probe_fails_world (quit_url 5001) = Inr ()"
    by (simp add: probe_fails_world_def example_world_def)
  have s: "stop_handle probe_fails_world 5001 =
       ([Fetch ''http://localhost:5001/quitquitquit'', SetTimeout 10000], Inr ())"
    using stop_handle_sent [OF f]
    by (simp add: probe_fails_world_def example_world_def quit_url_def toString.simps)
  show ?thesis
    using discoverSpec_cleanup [OF w, of Map.empty Map.empty] w p s by simp
qed

subsection \<open>The environment variables of the returned specification\<close>

text \<open>
  C4. Whenever \<^verbatim>\<open>discoverSpec\<close> resolves, on the static or on the dynamic path, the
  \<^verbatim>\<open>environmentVariables\<close> of the specification it returns are the \<open>envs\<close> argument.
  The concrete run takes the dynamic path; the child reported other variables.
\<close>

theorem discoverSpec_sets_envs:
  "snd (discoverSpec w d configValues envs) = Inr b \<Longrightarrow> environmentVariables b = envs"
  by (rule discoverSpec_env)

theorem discoverSpec_sets_envs_witness:
  "snd (discoverSpec example_world example_delegate Map.empty [''API_KEY'' \<mapsto> ''k'']) =
     Inr (example_backend\<lparr>environmentVariables := [''API_KEY'' \<mapsto> ''k'']\<rparr>)
   \<and> environmentVariables example_backend = [''FROM_CHILD'' \<mapsto> ''x'']
   \<and> environmentVariables (example_backend\<lparr>environmentVariables := [''API_KEY'' \<mapsto> ''k'']\<rparr>) =
     [''API_KEY'' \<mapsto> ''k'']"
proof -
  have w: "detectFromYaml example_world (sourceDir example_delegate)
             (projectId example_delegate) (runtime example_delegate) = Inr None"
      "getPort example_world 0 = Inr 5000" "getPort example_world 1 = Inr 5001"
    by (simp_all add: example_world_def)
  have f: "fetch example_world (quit_url 5001) = Inr ()"
    by (simp add: example_world_def)
  have r: "snd (discoverSpec example_world example_delegate Map.empty [''API_KEY'' \<mapsto> ''k'']) =
     Inr (example_backend\<lparr>environmentVariables := [''API_KEY'' \<mapsto> ''k'']\<rparr>)"
    using discoverSpec_dynamic [OF w, of Map.empty "[''API_KEY'' \<mapsto> ''k'']"] stop_handle_sent [OF f]
    by (simp add: example_world_def)
  show ?thesis
    using r discoverSpec_sets_envs [OF r] by (simp add: example_backend_def)
qed

subsection \<open>The static path launches nothing\<close>

text \<open>
  C5. When the declarative specification file is present and parses
  (\<^verbatim>\<open>detectFromYaml\<close> resolves to a specification), the only external call of
  \<^verbatim>\<open>discoverSpec\<close> is that one: no port is allocated and no process is spawned.
\<close>

theorem discoverSpec_static_no_launch:
  assumes "detectFromYaml w (sourceDir d) (projectId d) (runtime d) = Inr (Some b)"
  shows "fst (discoverSpec w d configValues envs) =
       [DetectFromYaml (sourceDir d) (projectId d) (runtime d)]
     \<and> port_allocations (fst (discoverSpec w d configValues envs)) = 0
     \<and> spawn_count (fst (discoverSpec w d configValues envs)) = 0"
  by (simp add: discoverSpec_static [OF assms])

theorem discoverSpec_static_no_launch_witness:
  "detectFromYaml static_world (sourceDir example_delegate) (projectId example_delegate)
       (runtime example_delegate) = Inr (Some example_backend)
   \<and> fst (discoverSpec static_world example_delegate Map.empty Map.empty) =
       [DetectFromYaml ''/home/user/project/functions'' ''demo-project'' (Runtime ''go113'')]
   \<and> port_allocations (fst (discoverSpec static_world example_delegate Map.empty Map.empty)) = 0
   \<and> spawn_count (fst (discoverSpec static_world example_delegate Map.empty Map.empty)) = 0"
proof -
  have w: "detectFromYaml static_world (sourceDir example_delegate)
             (projectId example_delegate) (runtime example_delegate) = Inr (Some example_backend)"
    by (simp add: static_world_def example_world_def)
  show ?thesis
    using w discoverSpec_static_no_launch [OF w, of Map.empty Map.empty]
    by (simp add: example_delegate_def)
qed

subsection \<open>The probed port\<close>

text \<open>
  C7. On the dynamic path the one probe goes to port 8081, whatever primary port was
  allocated; the launched server was given the allocated port as \<^verbatim>\<open>PORT\<close>.
\<close>

theorem discoverSpec_probe_port:
  assumes "detectFromYaml w (sourceDir d) (projectId d) (runtime d) = Inr None"
    and "getPort w 0 = Inr port"
    and "getPort w 1 = Inr adminPort"
  shows "probe_ports (fst (discoverSpec w d configValues envs)) = [8081]
     \<and> map (\<lambda>e. e ''PORT'') (spawn_envs (fst (discoverSpec w d configValues envs))) =
         [Some (toString port)]"
  by (simp add: discoverSpec_dynamic [OF assms] probe_ports_append probe_ports_stop_handle
      spawn_envs_append spawn_envs_stop_handle serve_env_def)

theorem discoverSpec_probe_port_witness:
  "detectFromYaml example_world (sourceDir example_delegate) (projectId example_delegate)
       (runtime example_delegate) = Inr None
   \<and> getPort example_world 0 = Inr 5000
   \<and> getPort example_world 1 = Inr 5001
   \<and> probe_ports (fst (discoverSpec example_world example_delegate Map.empty Map.empty)) = [8081]
   \<and> map (\<lambda>e. e ''PORT'')
       (spawn_envs (fst (discoverSpec example_world example_delegate Map.empty Map.empty))) =
       [Some ''5000'']"
proof -
  have w: "detectFromYaml example_world (sourceDir example_delegate)
             (projectId example_delegate) (runtime example_delegate) = Inr None"
      "getPort example_world 0 = Inr 5000" "getPort example_world 1 = Inr 5001"
    by (simp_all add: example_world_def)
  show ?thesis
    using w discoverSpec_probe_port [OF w, of Map.empty Map.empty]
    by (simp add: toString.simps)
qed

subsection \<open>Unsupported versions\<close>

text \<open>
  Where the rejection of an unsupported version works: with \<^verbatim>\<open>go.mod\<close> read and
  parsed and no runtime override configured, a declared version that is neither a key
  of \<^verbatim>\<open>VERSION_TO_RUNTIME\<close> nor the name of a member of \<^verbatim>\<open>Object.prototype\<close> gives
  the \<^verbatim>\<open>FirebaseError\<close> whose message holds that version and the supported ones.
\<close>

lemma tryCreateDelegate_rejects_version:
  assumes "readFile w (path_join [config_path opts (functions_source opts), ''go.mod'']) = Inr buf"
    and "parseModule w buf = Inr m"
    and "falsy (functions_runtime opts)"
    and "version m = Some v" and "v \<noteq> []"
    and "map_of VERSION_TO_RUNTIME v = None"
    and "v \<notin> set OBJECT_PROTOTYPE"
  shows "snd (tryCreateDelegate w opts) =
       Inl (FirebaseError
             (''go.mod specifies Golang version '' @ v @
              '' which is unsupported by Google Cloud Functions. Valid values are 1.13'') [])
     \<and> contains_str v (unsupported_version_message v)
     \<and> list_all (\<lambda>k. contains_str k (unsupported_version_message v))
         (map fst VERSION_TO_RUNTIME)"
proof -
  have "get_property VERSION_TO_RUNTIME v = None"
    using assms(6,7) by (simp add: get_property_def)
  then have "snd (tryCreateDelegate w opts) =
      Inl (FirebaseError (unsupported_version_message v) [])"
    using assms(3-5) by (simp add: tryCreateDelegate_parsed [OF assms(1,2)])
  moreover have "contains_str v (unsupported_version_message v)"
    unfolding unsupported_version_message_def by (rule contains_str_middle)
  moreover have "contains_str ''1.13'' (unsupported_version_message v)"
    using contains_str_middle [of "''1.13''"
        "''go.mod specifies Golang version '' @ v @
         '' which is unsupported by Google Cloud Functions. Valid values are ''" "[]"]
    by (simp add: unsupported_version_message_def VERSION_TO_RUNTIME_def)
  ultimately show ?thesis
    by (simp add: unsupported_version_message_def VERSION_TO_RUNTIME_def)
qed


subsection \<open>Code generation\<close>

text \<open>
  C8. Once the \<^verbatim>\<open>autogen\<close> directory is there (created, or already existing), a
  codegen command that exits with a non-zero status makes \<^verbatim>\<open>build\<close> throw the
  \<^verbatim>\<open>FirebaseError\<close> "Failed to run codegen" whose child is an \<^verbatim>\<open>Error\<close> carrying the
  captured stderr; at exit status zero the captured stdout is written, as it is, to
  \<^verbatim>\<open>autogen/main.go\<close> under the source directory, and \<^verbatim>\<open>build\<close> settles as that
  write does.
\<close>

theorem build_codegen_exit:
  assumes "mkdir w (path_join [sourceDir d, ''autogen'']) = Inr ()
     \<or> (\<exists>e. mkdir w (path_join [sourceDir d, ''autogen'']) = Inl e
          \<and> contains_str ''EEXIST'' (message e))"
    and "spawn_sync w ''go'' [''run'', FUNCTIONS_CODEGEN, module (delegate_module d)] (sourceDir d) = r"
    and "status r = Some n"
  shows "(n \<noteq> 0 \<longrightarrow> (\<forall>s. stderr r = Some s \<longrightarrow>
            snd (build w d) = Inl (FirebaseError ''Failed to run codegen'' [Error s])))
     \<and> (n = 0 \<longrightarrow> (\<forall>out. stdout r = Some out \<longrightarrow>
            build w d =
              ([Mkdir (path_join [sourceDir d, ''autogen'']),
                SpawnSync ''go'' [''run'', FUNCTIONS_CODEGEN, module (delegate_module d)] (sourceDir d),
                WriteFile (path_join [sourceDir d, ''autogen'', ''main.go'']) out],
               writeFile w (path_join [sourceDir d, ''autogen'', ''main.go'']) out)))"
  using assms(2,3) by (auto simp add: build_codegen [OF assms(1)] Let_def)

theorem build_codegen_exit_witness:
  "status (spawn_sync codegen_fails_world ''go''
      [''run'', FUNCTIONS_CODEGEN, module (delegate_module example_delegate)]
      (sourceDir example_delegate)) = Some 1
   \<and> snd (build codegen_fails_world example_delegate) =
       Inl (FirebaseError ''Failed to run codegen'' [Error ''module not found''])
   \<and> status (spawn_sync example_world ''go''
      [''run'', FUNCTIONS_CODEGEN, module (delegate_module example_delegate)]
      (sourceDir example_delegate)) = Some 0
   \<and> build example_world example_delegate =
       ([Mkdir (path_join [''/home/user/project/functions'', ''autogen'']),
         SpawnSync ''go'' [''run'', ''github.com/inlined/go-functions/support/codegen'', ''example.com/fn'']
           ''/home/user/project/functions'',
         WriteFile (path_join [''/home/user/project/functions'', ''autogen'', ''main.go''])
           ''package main''],
        Inr ())"
proof -
  have m1: "mkdir codegen_fails_world (path_join [sourceDir example_delegate, ''autogen'']) = Inr ()
     \<or> (\<exists>e. mkdir codegen_fails_world (path_join [sourceDir example_delegate, ''autogen'']) = Inl e
          \<and> contains_str ''EEXIST'' (message e))"
    by (simp add: codegen_fails_world_def example_world_def)
  have m2: "mkdir example_world (path_join [sourceDir example_delegate, ''autogen'']) = Inr ()
     \<or> (\<exists>e. mkdir example_world (path_join [sourceDir example_delegate, ''autogen'']) = Inl e
          \<and> contains_str ''EEXIST'' (message e))"
    by (simp add: example_world_def)
  have s1: "status (spawn_sync codegen_fails_world ''go''
      [''run'', FUNCTIONS_CODEGEN, module (delegate_module example_delegate)]
      (sourceDir example_delegate)) = Some 1"
    by (simp add: codegen_fails_world_def example_world_def)
  have s2: "status (spawn_sync example_world ''go''
      [''run'', FUNCTIONS_CODEGEN, module (delegate_module example_delegate)]
      (sourceDir example_delegate)) = Some 0"
    by (simp add: example_world_def)
  show ?thesis
    using s1 s2 build_codegen_exit [OF m1 refl s1] build_codegen_exit [OF m2 refl s2]
    by (simp add: codegen_fails_world_def example_world_def example_delegate_def
        example_module_def FUNCTIONS_CODEGEN_def FUNCTIONS_SDK_def)
qed

subsection \<open>No manifest\<close>

text \<open>
  C9, as stated, fails in its last part: a manifest that is read but whose parse throws
  gives exactly the run of an absent manifest, the same log line and the same
  \<^verbatim>\<open>undefined\<close>, since one \<^verbatim>\<open>catch\<close> serves both.
\<close>

theorem tryCreateDelegate_parse_failure_same:
  "readFile absent_world
       (path_join [config_path example_options (functions_source example_options), ''go.mod'']) =
     Inl (Error ''ENOENT: no such file or directory'')
   \<and> readFile unparsable_world
       (path_join [config_path example_options (functions_source example_options), ''go.mod'']) =
     Inr ''not a module file''
   \<and> parseModule unparsable_world ''not a module file'' = Inl (Error ''Module has no name'')
   \<and> tryCreateDelegate unparsable_world example_options =
       tryCreateDelegate absent_world example_options"
proof -
  have a: "readFile absent_world
       (path_join [config_path example_options (functions_source example_options), ''go.mod'']) =
     Inl (Error ''ENOENT: no such file or directory'')"
    by (simp add: absent_world_def example_world_def)
  have u: "readFile unparsable_world
       (path_join [config_path example_options (functions_source example_options), ''go.mod'']) =
     Inr ''not a module file''"
     "parseModule unparsable_world ''not a module file'' = Inl (Error ''Module has no name'')"
    by (simp_all add: unparsable_world_def example_world_def)
  show ?thesis
    using a u
      tryCreateDelegate_not_parsed [of absent_world example_options, OF disjI1, OF a]
      tryCreateDelegate_not_parsed [of unparsable_world example_options, OF disjI2, OF conjI, OF u]
    by simp
qed

text \<open>
  C9, amended. When \<^verbatim>\<open>go.mod\<close> cannot be read (the file is absent),
  \<^verbatim>\<open>tryCreateDelegate\<close> logs at debug level and resolves to \<^verbatim>\<open>undefined\<close>; it does not
  throw. A manifest whose parse throws has the same outcome.
\<close>

theorem tryCreateDelegate_no_manifest:
  assumes "readFile w (path_join [config_path opts (functions_source opts), ''go.mod'']) = Inl e
     \<or> (readFile w (path_join [config_path opts (functions_source opts), ''go.mod'']) = Inr buf
        \<and> parseModule w buf = Inl e)"
  shows "tryCreateDelegate w opts =
     ([ReadFile (path_join [config_path opts (functions_source opts), ''go.mod'']),
       LogDebug ''Customer code is not Golang code (or they aren't using modules)''],
      Inr None)"
  using assms by (rule tryCreateDelegate_not_parsed)

theorem tryCreateDelegate_no_manifest_witness:
  "readFile absent_world
       (path_join [config_path example_options (functions_source example_options), ''go.mod'']) =
     Inl (Error ''ENOENT: no such file or directory'')
   \<and> tryCreateDelegate absent_world example_options =
     ([ReadFile (path_join [''/home/user/project/functions'', ''go.mod'']),
       LogDebug ''Customer code is not Golang code (or they aren't using modules)''],
      Inr None)"
proof -
  have a: "readFile absent_world
       (path_join [config_path example_options (functions_source example_options), ''go.mod'']) =
     Inl (Error ''ENOENT: no such file or directory'')"
    by (simp add: absent_world_def example_world_def)
  show ?thesis
    using a tryCreateDelegate_no_manifest [of absent_world example_options, OF disjI1, OF a]
    by (simp add: example_options_def)
qed

subsection \<open>The runtime override\<close>

text \<open>
  C10. When \<^verbatim>\<open>go.mod\<close> is read and parsed and \<^verbatim>\<open>functions.runtime\<close> is set (to a
  value that the test \<^verbatim>\<open>!runtime\<close> takes as set: a non-empty string), the delegate is
  built with that runtime, whatever the module's version is: missing, unsupported or
  supported. Neither version error is thrown, and nothing of the result comes from
  \<^verbatim>\<open>VERSION_TO_RUNTIME\<close>.
\<close>

theorem tryCreateDelegate_runtime_override:
  assumes "readFile w (path_join [config_path opts (functions_source opts), ''go.mod'']) = Inr buf"
    and "parseModule w buf = Inr m"
    and "functions_runtime opts = Some r" and "r \<noteq> []"
  shows "tryCreateDelegate w opts =
     ([ReadFile (path_join [config_path opts (functions_source opts), ''go.mod''])],
      Inr (Some \<lparr>projectId = project opts,
                 sourceDir = config_path opts (functions_source opts),
                 runtime = Runtime r, delegate_module = m\<rparr>))"
  using assms(3,4) by (simp add: tryCreateDelegate_parsed [OF assms(1,2)])

theorem tryCreateDelegate_runtime_override_witness:
  "readFile unsupported_world
       (path_join [config_path override_options (functions_source override_options), ''go.mod'']) =
     Inr ''module example.com/fn''
   \<and> parseModule unsupported_world ''module example.com/fn'' = Inr unsupported_module
   \<and> functions_runtime override_options = Some ''go113''
   \<and> version unsupported_module = Some ''9.99''
   \<and> snd (tryCreateDelegate unsupported_world override_options) =
       Inr (Some \<lparr>projectId = ''demo-project'', sourceDir = ''/home/user/project/functions'',
                  runtime = Runtime ''go113'', delegate_module = unsupported_module\<rparr>)"
proof -
  have h: "readFile unsupported_world
       (path_join [config_path override_options (functions_source override_options), ''go.mod'']) =
     Inr ''module example.com/fn''"
    "parseModule unsupported_world ''module example.com/fn'' = Inr unsupported_module"
    "functions_runtime override_options = Some ''go113''"
    "''go113'' \<noteq> []"
    by (simp_all add: unsupported_world_def example_world_def override_options_def
        example_options_def)
  show ?thesis
    using h tryCreateDelegate_runtime_override [OF h]
    by (simp add: override_options_def example_options_def unsupported_module_def)
qed

end
